theory Spec2Isabelle
  imports Main "HOL-Library.Sublist"
begin

section \<open>Python strings\<close>

text \<open>
  A Python \<open>str\<close> is a sequence of Unicode code points: it is modelled as a list of
  natural numbers. \<open>lit\<close> turns a literal of the source into that list.
\<close>

type_synonym codepoint = nat

type_synonym pystr = "codepoint list"

definition lit :: "string \<Rightarrow> pystr" where
  "lit s = map of_char s"

text \<open>
  The classification of code points is the Unicode database of the Python runtime, not
  code of this module: \<open>str.isspace\<close>, \<open>str.isupper\<close>, \<open>str.istitle\<close> and \<open>str.islower\<close>
  on a single character are parameters of the model. Nothing is assumed of them but
  what a statement says.
\<close>

record ucd =
  uc_isspace :: "codepoint \<Rightarrow> bool"
  uc_isupper :: "codepoint \<Rightarrow> bool"
  uc_istitle :: "codepoint \<Rightarrow> bool"
  uc_islower :: "codepoint \<Rightarrow> bool"

text \<open>
  What every Unicode database says of the ASCII range: the blanks are TAB, LF, VT, FF, CR,
  FS, GS, RS, US and the space, the upper-case characters are A to Z, the lower-case ones
  a to z, and none is title-case.
\<close>

definition ascii_exact :: "ucd \<Rightarrow> bool" where
  "ascii_exact U \<longleftrightarrow>
     (\<forall>c < 128.
        (uc_isspace U c \<longleftrightarrow> c \<in> set [9, 10, 11, 12, 13, 28, 29, 30, 31, 32])
      \<and> (uc_isupper U c \<longleftrightarrow> 65 \<le> c \<and> c \<le> 90)
      \<and> (uc_islower U c \<longleftrightarrow> 97 \<le> c \<and> c \<le> 122)
      \<and> \<not> uc_istitle U c)"

text \<open>
  \<open>str.islower()\<close>, as CPython's loop computes it: an upper-case or title-case character
  answers False at once; otherwise the answer is whether a lower-case character was
  seen.
\<close>

fun islower_loop :: "ucd \<Rightarrow> bool \<Rightarrow> pystr \<Rightarrow> bool" where
  "islower_loop U cased [] = cased"
| "islower_loop U cased (c # cs) =
     (if uc_isupper U c \<or> uc_istitle U c then False
      else islower_loop U (cased \<or> uc_islower U c) cs)"

definition py_islower :: "ucd \<Rightarrow> pystr \<Rightarrow> bool" where
  "py_islower U s = islower_loop U False s"

text \<open>\<open>str.strip()\<close> with no argument: leading and trailing whitespace removed.\<close>

definition py_strip :: "ucd \<Rightarrow> pystr \<Rightarrow> pystr" where
  "py_strip U s = rev (dropWhile (uc_isspace U) (rev (dropWhile (uc_isspace U) s)))"

text \<open>\<open>sep.join(xs)\<close>.\<close>

fun py_join :: "pystr \<Rightarrow> pystr list \<Rightarrow> pystr" where
  "py_join sep [] = []"
| "py_join sep [x] = x"
| "py_join sep (x # y # ys) = x @ sep @ py_join sep (y # ys)"

section \<open>Errors\<close>

text \<open>
  Every \<open>assert\<close> of the source raises \<open>AssertionError\<close> with the message of the
  assertion (empty when the assertion has none); \<open>raise Exception(msg)\<close> is
  \<open>Exception msg\<close>; \<open>str.split\<close> with an empty separator raises \<open>ValueError\<close>; a raw
  language code the tag service rejects is \<open>InvalidTag\<close>.
\<close>

datatype error =
    AssertionError pystr
  | Exception pystr
  | ValueError pystr
  | InvalidTag pystr

text \<open>
  \<open>s.split(sep)\<close> with a separator: the text is cut at every occurrence of \<open>sep\<close>, scanning
  from the left; \<open>cur\<close> is the segment read so far.
\<close>

function split_from :: "pystr \<Rightarrow> pystr \<Rightarrow> pystr \<Rightarrow> pystr list" where
  "split_from sep cur [] = [cur]"
| "split_from sep cur (c # cs) =
     (if sep \<noteq> [] \<and> prefix sep (c # cs)
      then cur # split_from sep [] (drop (length sep) (c # cs))
      else split_from sep (cur @ [c]) cs)"
  by pat_completeness auto
termination
  by (relation "measure (\<lambda>(sep, cur, s). length s)") (auto simp: neq_Nil_conv)

definition py_split :: "pystr \<Rightarrow> pystr \<Rightarrow> error + pystr list" where
  "py_split s sep =
     (if sep = [] then Inl (ValueError (lit ''empty separator''))
      else Inr (split_from sep [] s))"

section \<open>The collaborators of the module\<close>

text \<open>
  \<open>entry.py\<close> imports \<open>bcp47\<close> and \<open>BCP47Tag\<close> from \<open>mtdata.iso.bcp47\<close> and
  \<open>detect_extension\<close> from \<open>mtdata.parser\<close>. They are parameters of the model:
  \<^item> \<open>bcp47\<close> normalises a raw code to a tag, or raises (\<open>None\<close>);
  \<^item> \<open>tag_str\<close> is \<open>str(tag)\<close>;
  \<^item> \<open>tag_eq_str\<close> is the outcome of \<open>tag == s\<close> for a tag and a \<open>str\<close>;
  \<^item> \<open>detect_extension\<close> reads an extension off a file name.
  Two tags are equal in Python exactly when their model values are equal.
\<close>

record 'tag services =
  bcp47 :: "pystr \<Rightarrow> 'tag option"
  tag_str :: "'tag \<Rightarrow> pystr"
  tag_eq_str :: "'tag \<Rightarrow> pystr \<Rightarrow> bool"
  detect_extension :: "pystr \<Rightarrow> pystr"

text \<open>A member of a \<open>langs\<close> tuple: a raw \<open>str\<close> or a \<open>BCP47Tag\<close>.\<close>

datatype 'tag lang_arg = Raw pystr | Tag 'tag

section \<open>DatasetId\<close>

definition DID_DELIM :: pystr where
  "DID_DELIM = lit ''-''"

record 'tag DatasetId =
  group :: pystr
  name :: pystr
  version :: pystr
  langs :: "'tag list"

text \<open>The characters of the literal \<open>-/*|[](){}<>?&:;,!^$"' \<close> in \<open>__post_init__\<close>.\<close>

definition reserved_chars :: pystr where
  "reserved_chars = lit (''-/*|[](){}<>?&:;,!^$'' @ [CHR 0x22, CHR 0x27, CHR 0x20])"

text \<open>The inner loop \<open>for ch in '...': assert ch not in name\<close>: the first failure.\<close>

fun check_chars :: "pystr \<Rightarrow> pystr \<Rightarrow> error option" where
  "check_chars [] nm = None"
| "check_chars (ch # chs) nm =
     (if ch \<in> set nm
      then Some (AssertionError
             (lit ''Character '' @ lit [CHR 0x27] @ [ch] @ lit [CHR 0x27]
                @ lit '' is not permitted in name '' @ nm))
      else check_chars chs nm)"

text \<open>The outer loop \<open>for name in [self.group, self.version, self.name]\<close>.\<close>

fun check_names :: "pystr list \<Rightarrow> error option" where
  "check_names [] = None"
| "check_names (nm # nms) =
     (case check_chars reserved_chars nm of
        Some e \<Rightarrow> Some e
      | None \<Rightarrow> check_names nms)"

text \<open>\<open>lang if isinstance(lang, BCP47Tag) else bcp47(lang)\<close>, then the tuple of them.\<close>

fun normalize_lang :: "'tag services \<Rightarrow> 'tag lang_arg \<Rightarrow> error + 'tag" where
  "normalize_lang svc (Tag t) = Inr t"
| "normalize_lang svc (Raw s) =
     (case bcp47 svc s of None \<Rightarrow> Inl (InvalidTag s) | Some t \<Rightarrow> Inr t)"

fun normalize_langs :: "'tag services \<Rightarrow> 'tag lang_arg list \<Rightarrow> error + 'tag list" where
  "normalize_langs svc [] = Inr []"
| "normalize_langs svc (l # ls) =
     (case normalize_lang svc l of
        Inl e \<Rightarrow> Inl e
      | Inr t \<Rightarrow>
          (case normalize_langs svc ls of
             Inl e \<Rightarrow> Inl e
           | Inr ts \<Rightarrow> Inr (t # ts)))"

text \<open>
  The constructor with \<open>__post_init__\<close>. The \<open>langs\<close> argument is a tuple, as its
  annotation says, so the \<open>isinstance(self.langs, tuple)\<close> assertion has no failing branch
  here.
\<close>

definition DatasetId_init ::
  "ucd \<Rightarrow> 'tag services \<Rightarrow> pystr \<Rightarrow> pystr \<Rightarrow> pystr \<Rightarrow> 'tag lang_arg list \<Rightarrow>
   error + 'tag DatasetId"
where
  "DatasetId_init U svc g n v ls =
     (if g = [] then Inl (AssertionError [])
      else if n = [] then Inl (AssertionError [])
      else if v = [] then Inl (AssertionError [])
      else if \<not> py_islower U n
        then Inl (AssertionError
               (lit ''name '' @ n @ lit '' has to be lower cased for consistency''))
      else case check_names [g, v, n] of
        Some e \<Rightarrow> Inl e
      | None \<Rightarrow>
          (case normalize_langs svc ls of
             Inl e \<Rightarrow> Inl e
           | Inr ts \<Rightarrow> Inr \<lparr>group = g, name = n, version = v, langs = ts\<rparr>))"

text \<open>\<open>lang_str\<close>, \<open>format\<close> and \<open>parse\<close>.\<close>

definition lang_str :: "'tag services \<Rightarrow> 'tag DatasetId \<Rightarrow> pystr" where
  "lang_str svc d = py_join DID_DELIM (map (tag_str svc) (langs d))"

definition format :: "'tag services \<Rightarrow> 'tag DatasetId \<Rightarrow> pystr \<Rightarrow> pystr" where
  "format svc d delim = py_join delim [group d, name d, version d, lang_str svc d]"

definition expected_format :: "pystr \<Rightarrow> pystr" where
  "expected_format delim =
     lit ''<group>'' @ delim @ lit ''<name>'' @ delim @ lit ''<version>'' @ delim
       @ lit ''<l1>'' @ delim @ lit ''<l2>''"

definition list_hint :: pystr where
  "list_hint =
     lit '' If you are unsure, run '' @ lit [CHR 0x22]
       @ lit ''mtdata list | cut -f1 | grep -i <name>'' @ lit [CHR 0x22]
       @ lit '' and copy its id.''"

definition parse :: "ucd \<Rightarrow> 'tag services \<Rightarrow> pystr \<Rightarrow> pystr \<Rightarrow> error + 'tag DatasetId" where
  "parse U svc string delim =
     (case py_split (py_strip U string) delim of
        Inl e \<Rightarrow> Inl e
      | Inr parts \<Rightarrow>
          (case parts of
             [g, n, v, lang1, lang2] \<Rightarrow> DatasetId_init U svc g n v [Raw lang1, Raw lang2]
           | _ \<Rightarrow>
               Inl (Exception
                 (lit ''Dataset ID expected in format: '' @ expected_format delim
                    @ lit ''; but given '' @ string @ lit ''.'' @ list_hint))))"

section \<open>Entry\<close>

record 'tag Entry =
  did :: "'tag DatasetId"
  url :: pystr
  filename :: pystr
  ext :: pystr
  in_paths :: "pystr list option"
  in_ext :: "pystr option"
  cite :: "pystr option"
  cols :: "(int \<times> int) option"
  is_archive :: bool

text \<open>Truth value of an optional \<open>str\<close> or list: \<open>None\<close> and the empty one are false.\<close>

fun truthy :: "'a list option \<Rightarrow> bool" where
  "truthy None = False"
| "truthy (Some xs) = (xs \<noteq> [])"

text \<open>\<open>x or y\<close> for an optional \<open>str\<close> \<open>x\<close>.\<close>

fun py_or :: "pystr option \<Rightarrow> pystr \<Rightarrow> pystr" where
  "py_or None y = y"
| "py_or (Some x) y = (if x = [] then y else x)"

definition archive_exts :: "pystr list" where
  "archive_exts = [lit ''zip'', lit ''tar'', lit ''tar.gz'', lit ''tgz'']"

text \<open>
  Lines 73 to 77: \<open>orig_name\<close> is the last segment of the URL, and the extension is the
  one given, or else detected from the given file name, or else from \<open>orig_name\<close>.
\<close>

definition resolve_ext :: "'tag services \<Rightarrow> pystr \<Rightarrow> pystr option \<Rightarrow> pystr option \<Rightarrow> pystr" where
  "resolve_ext svc u fname ex =
     (let orig_name = last (split_from (lit ''/'') [] u)
      in py_or ex (detect_extension svc (py_or fname orig_name)))"

text \<open>
  \<open>Entry.__init__\<close>. The \<open>did\<close> argument is a \<open>DatasetId\<close> and \<open>url\<close> a \<open>str\<close>, as
  annotated.
\<close>

definition Entry_init ::
  "'tag services \<Rightarrow> 'tag DatasetId \<Rightarrow> pystr \<Rightarrow> pystr option \<Rightarrow> pystr option \<Rightarrow>
   pystr list option \<Rightarrow> pystr option \<Rightarrow> pystr option \<Rightarrow> (int \<times> int) option \<Rightarrow>
   error + 'tag Entry"
where
  "Entry_init svc d u fname ex ipaths iext ct cl =
     (let x = resolve_ext svc u fname ex;
          e = \<lparr>did = d, url = u, filename = py_or fname (name d @ lit ''.'' @ x), ext = x,
               in_paths = ipaths, in_ext = iext, cite = ct, cols = cl,
               is_archive = (x \<in> set archive_exts)\<rparr>
      in if prefix (lit ''.'') x
           then Inl (AssertionError
                  (lit ''ext '' @ x @ lit '' should not start with a dot (.)''))
         else if x \<in> set archive_exts then
           (if \<not> truthy ipaths
              then Inl (AssertionError (lit ''Archive entries must have in_paths''))
            else if \<not> truthy iext
              then Inl (Exception (lit ''in_ext is required for archive files''))
            else Inr e)
         else if iext \<noteq> Some (lit ''opus_xces'') \<and> truthy ipaths
           then Inl (AssertionError
                  (lit ''in_paths is not applicable for non archive format '' @ x))
         else Inr e)"

text \<open>The property \<open>Entry.lang_str\<close>.\<close>

definition Entry_lang_str :: "'tag services \<Rightarrow> 'tag Entry \<Rightarrow> pystr" where
  "Entry_lang_str svc e = lang_str svc (did e)"

text \<open>
  \<open>x == ch\<close> for a member \<open>x\<close> of the supplied \<open>langs\<close> and a one-character \<open>str\<close>, and
  equality of two tuples: the same length and equal members.
\<close>

fun py_eq_str :: "'tag services \<Rightarrow> 'tag lang_arg \<Rightarrow> pystr \<Rightarrow> bool" where
  "py_eq_str svc (Raw s) t = (s = t)"
| "py_eq_str svc (Tag g) t = tag_eq_str svc g t"

text \<open>
  \<open>is_swap\<close>: \<open>tuple(self.lang_str)\<close> is the tuple of the characters of the string
  \<open>lang_str\<close>, each a \<open>str\<close> of length one.
\<close>

definition is_swap :: "'tag services \<Rightarrow> 'tag Entry \<Rightarrow> 'tag lang_arg list \<Rightarrow> bool" where
  "is_swap svc e ls =
     (if in_ext e = Some (lit ''tmx'') then False
      else list_all2 (py_eq_str svc) (rev ls) (map (\<lambda>c. [c]) (Entry_lang_str svc e)))"

text \<open>\<open>Entry.format\<close>; \<open>str(self.did)\<close> is \<open>did.format()\<close> with the default delimiter.\<close>

definition Entry_format :: "'tag services \<Rightarrow> 'tag Entry \<Rightarrow> pystr \<Rightarrow> pystr" where
  "Entry_format svc e delim =
     format svc (did e) DID_DELIM @ delim @ url e @ delim
       @ py_join (lit '','') (case in_paths e of None \<Rightarrow> [] | Some ps \<Rightarrow> ps)"

text \<open>\<open>is_noisy\<close>: a segment is a \<open>str\<close> or \<open>None\<close>.\<close>

definition is_noisy :: "ucd \<Rightarrow> pystr option \<Rightarrow> pystr option \<Rightarrow> bool" where
  "is_noisy U seg1 seg2 =
     (case seg1 of
        None \<Rightarrow> True
      | Some s1 \<Rightarrow>
          (case seg2 of
             None \<Rightarrow> True
           | Some s2 \<Rightarrow> py_strip U s1 = [] \<or> py_strip U s2 = []))"

section \<open>Experiment and Paper\<close>

text \<open>
  Experiments and papers are objects: a paper holds references to its experiments and an
  experiment holds, in \<open>papers\<close>, references to papers. \<open>Paper\<close> is declared with
  \<open>eq=False\<close>, so a paper is hashed and compared by identity, which is its reference. The
  store maps references to objects; \<open>next_ref\<close> is the reference of the next object.
\<close>

type_synonym ref = nat

record 'tag Experiment =
  exp_langs :: "'tag list"
  train :: "'tag Entry list"
  tests :: "'tag Entry list"
  papers :: "ref set"

record 'tag Paper =
  paper_name :: pystr
  title :: pystr
  paper_url :: pystr
  paper_cite :: pystr
  experiments :: "ref list"
  paper_langs :: "'tag list set"

record 'tag store =
  exps :: "ref \<Rightarrow> 'tag Experiment option"
  paps :: "ref \<Rightarrow> 'tag Paper option"
  next_ref :: ref

text \<open>\<open>set(exp.langs for exp in self.experiments)\<close>; \<open>None\<close> on an unallocated reference.\<close>

fun collect_langs :: "(ref \<Rightarrow> 'tag Experiment option) \<Rightarrow> ref list \<Rightarrow> 'tag list set option" where
  "collect_langs es [] = Some {}"
| "collect_langs es (r # rs) =
     (case es r of
        None \<Rightarrow> None
      | Some x \<Rightarrow>
          (case collect_langs es rs of
             None \<Rightarrow> None
           | Some ls \<Rightarrow> Some (insert (exp_langs x) ls)))"

text \<open>The loop \<open>for exp in self.experiments: exp.papers.add(self)\<close>.\<close>

fun add_paper ::
  "ref \<Rightarrow> ref list \<Rightarrow> (ref \<Rightarrow> 'tag Experiment option) \<Rightarrow> (ref \<Rightarrow> 'tag Experiment option) option"
where
  "add_paper p [] es = Some es"
| "add_paper p (r # rs) es =
     (case es r of
        None \<Rightarrow> None
      | Some x \<Rightarrow> add_paper p rs (es(r \<mapsto> x\<lparr>papers := insert p (papers x)\<rparr>)))"

text \<open>
  The constructor of \<open>Paper\<close> with \<open>__post_init__\<close>: the new object gets the reference
  \<open>next_ref\<close>; \<open>self.langs or set(...)\<close> keeps a non-empty \<open>langs\<close> argument. The result is
  the reference of the paper and the store afterwards, or \<open>None\<close> when a reference in
  \<open>experiments\<close> is not allocated (which no Python program can bring about).
\<close>

definition Paper_init ::
  "'tag store \<Rightarrow> pystr \<Rightarrow> pystr \<Rightarrow> pystr \<Rightarrow> pystr \<Rightarrow> ref list \<Rightarrow> 'tag list set option \<Rightarrow>
   (ref \<times> 'tag store) option"
where
  "Paper_init h nm ti u c rs lg =
     (let p = next_ref h
      in case (case lg of
                 None \<Rightarrow> collect_langs (exps h) rs
               | Some l \<Rightarrow> if l = {} then collect_langs (exps h) rs else Some l) of
           None \<Rightarrow> None
         | Some l \<Rightarrow>
             (case add_paper p rs (exps h) of
                None \<Rightarrow> None
              | Some es \<Rightarrow>
                  Some (p, \<lparr>exps = es,
                            paps = (paps h)(p \<mapsto> \<lparr>paper_name = nm, title = ti, paper_url = u,
                                     paper_cite = c, experiments = rs, paper_langs = l\<rparr>),
                            next_ref = Suc p\<rparr>)))"

section \<open>Concrete parameters for evaluation\<close>

text \<open>
  A classification for evaluating the model on concrete inputs: the whitespace
  characters of Unicode, and the upper-case and lower-case characters among the code
  points below 256 (none of which is title-case). Code points from 256 on count as
  uncased in it.
\<close>

definition latin1 :: ucd where
  "latin1 =
     \<lparr>uc_isspace = (\<lambda>c. c \<in> set [9, 10, 11, 12, 13, 28, 29, 30, 31, 32, 0x85, 0xA0, 0x1680,
                        0x2000, 0x2001, 0x2002, 0x2003, 0x2004, 0x2005, 0x2006, 0x2007,
                        0x2008, 0x2009, 0x200A, 0x2028, 0x2029, 0x202F, 0x205F, 0x3000]),
      uc_isupper = (\<lambda>c. (65 \<le> c \<and> c \<le> 90) \<or> (0xC0 \<le> c \<and> c \<le> 0xDE \<and> c \<noteq> 0xD7)),
      uc_istitle = (\<lambda>c. False),
      uc_islower = (\<lambda>c. (97 \<le> c \<and> c \<le> 122) \<or> c = 0xAA \<or> c = 0xB5 \<or> c = 0xBA
                        \<or> (0xDF \<le> c \<and> c \<le> 0xFF \<and> c \<noteq> 0xF7))\<rparr>"

text \<open>
  A stand-in for the tag service: tags are their canonical three-letter codes, and the
  two- and three-letter codes of English, French and German are known. A tag never
  equals a \<open>str\<close>. The extension is the text after the last dot of the name.
\<close>

definition demo_bcp47 :: "pystr \<Rightarrow> pystr option" where
  "demo_bcp47 s =
     (if s = lit ''en'' \<or> s = lit ''eng'' then Some (lit ''eng'')
      else if s = lit ''fr'' \<or> s = lit ''fra'' then Some (lit ''fra'')
      else if s = lit ''de'' \<or> s = lit ''deu'' then Some (lit ''deu'')
      else None)"

definition demo_detect :: "pystr \<Rightarrow> pystr" where
  "demo_detect nm = rev (takeWhile (\<lambda>c. c \<noteq> of_char CHR ''.'') (rev nm))"

definition demo :: "pystr services" where
  "demo = \<lparr>bcp47 = demo_bcp47, tag_str = (\<lambda>t. t), tag_eq_str = (\<lambda>t s. False),
            detect_extension = demo_detect\<rparr>"

text \<open>
  Concrete objects: an identifier whose language order is (French, English), as the
  stand-in service normalises it, a URL, a plain-file Entry over that identifier, and a
  store with one Experiment (at reference 0) that no Paper has registered with.
\<close>

definition demo_did :: "pystr DatasetId" where
  "demo_did =
     \<lparr>group = lit ''g'', name = lit ''news'', version = lit ''1'',
      langs = [lit ''fra'', lit ''eng'']\<rparr>"

definition demo_url :: pystr where
  "demo_url = lit ''http://data.example/files/news''"

definition demo_entry :: "pystr Entry" where
  "demo_entry =
     \<lparr>did = demo_did, url = demo_url, filename = lit ''news.tsv'', ext = lit ''tsv'',
      in_paths = None, in_ext = None, cite = None, cols = None, is_archive = False\<rparr>"

definition demo_store :: "pystr store" where
  "demo_store =
     \<lparr>exps = [0 \<mapsto> \<lparr>exp_langs = [lit ''fra'', lit ''eng''], train = [demo_entry], tests = [],
                       papers = {}\<rparr>],
      paps = Map.empty, next_ref = 1\<rparr>"

section \<open>Facts about the string primitives\<close>

lemma lit_append: "lit (a @ b) = lit a @ lit b"
  by (simp add: lit_def)

lemma ascii_class:
  assumes "ascii_exact U" and "c < 128"
  shows "uc_isspace U c \<longleftrightarrow> c \<in> set [9, 10, 11, 12, 13, 28, 29, 30, 31, 32]"
    and "uc_isupper U c \<longleftrightarrow> 65 \<le> c \<and> c \<le> 90"
    and "uc_islower U c \<longleftrightarrow> 97 \<le> c \<and> c \<le> 122"
    and "\<not> uc_istitle U c"
  using assms unfolding ascii_exact_def by blast+

lemma ascii_exact_latin1: "ascii_exact latin1"
  by (auto simp: ascii_exact_def latin1_def)

lemma islower_loop_iff:
  "islower_loop U cased s \<longleftrightarrow>
     (\<forall>c \<in> set s. \<not> uc_isupper U c \<and> \<not> uc_istitle U c)
     \<and> (cased \<or> (\<exists>c \<in> set s. uc_islower U c))"
  by (induction s arbitrary: cased) auto

lemma py_islower_iff:
  "py_islower U s \<longleftrightarrow>
     (\<forall>c \<in> set s. \<not> uc_isupper U c \<and> \<not> uc_istitle U c) \<and> (\<exists>c \<in> set s. uc_islower U c)"
  by (simp add: py_islower_def islower_loop_iff)

lemma all_dropWhile_iff: "(\<forall>x \<in> set (dropWhile P s). P x) \<longleftrightarrow> (\<forall>x \<in> set s. P x)"
  by (induction s) auto

lemma strip_empty_iff: "py_strip U s = [] \<longleftrightarrow> list_all (uc_isspace U) s"
  by (simp add: py_strip_def dropWhile_eq_Nil_conv all_dropWhile_iff list_all_iff)

lemma check_chars_None_iff: "check_chars rs nm = None \<longleftrightarrow> set rs \<inter> set nm = {}"
  by (induction rs) auto

lemma check_chars_Some: "check_chars rs nm = Some e \<Longrightarrow> \<exists>msg. e = AssertionError msg"
  by (induction rs) (auto split: if_splits)

lemma check_names_None_iff:
  "check_names nms = None \<longleftrightarrow> (\<forall>nm \<in> set nms. set reserved_chars \<inter> set nm = {})"
  by (induction nms) (auto simp: check_chars_None_iff [symmetric] split: option.splits)

lemma check_names_Some: "check_names nms = Some e \<Longrightarrow> \<exists>msg. e = AssertionError msg"
  by (induction nms) (auto split: option.splits dest: check_chars_Some)

lemmas demo_simps =
  lit_def latin1_def demo_def demo_bcp47_def demo_detect_def py_islower_def
  reserved_chars_def py_strip_def DID_DELIM_def archive_exts_def
  demo_did_def demo_url_def demo_entry_def

section \<open>The case rule of DatasetId\<close>

lemma News_not_lower: "ascii_exact U \<Longrightarrow> \<not> py_islower U (lit ''News'')"
  by (simp add: py_islower_iff lit_def ascii_class)

lemma news_lower: "ascii_exact U \<Longrightarrow> py_islower U (lit ''news'')"
  by (simp add: py_islower_iff lit_def ascii_class)

text \<open>
  C8. Constructing a DatasetId whose name is not lower-case (\<open>name.islower()\<close> is false)
  fails with an \<open>AssertionError\<close>, whatever the other fields are. So does
  \<open>name = "News"\<close>, and when group and version are non-empty the error is the one of the
  case assertion. With \<open>name = "news"\<close>, a non-empty group and version free of reserved
  characters and languages the tag service accepts, the construction succeeds.
\<close>

theorem name_case_rule:
  "(\<not> py_islower U n \<longrightarrow> (\<exists>msg. DatasetId_init U svc g n v ls = Inl (AssertionError msg)))
   \<and> (ascii_exact U \<longrightarrow>
        (\<exists>msg. DatasetId_init U svc g (lit ''News'') v ls = Inl (AssertionError msg)))
   \<and> (ascii_exact U \<and> g \<noteq> [] \<and> v \<noteq> [] \<longrightarrow>
        DatasetId_init U svc g (lit ''News'') v ls =
          Inl (AssertionError (lit ''name News has to be lower cased for consistency'')))
   \<and> (ascii_exact U \<and> g \<noteq> [] \<and> v \<noteq> []
        \<and> set reserved_chars \<inter> set g = {} \<and> set reserved_chars \<inter> set v = {}
        \<and> normalize_langs svc ls = Inr ts \<longrightarrow>
        DatasetId_init U svc g (lit ''news'') v ls =
          Inr \<lparr>group = g, name = lit ''news'', version = v, langs = ts\<rparr>)"
proof -
  have clean: "set reserved_chars \<inter> set (lit ''news'') = {}"
    by (simp add: reserved_chars_def lit_def)
  have general: "\<exists>msg. DatasetId_init U svc g n v ls = Inl (AssertionError msg)"
    if "\<not> py_islower U n" for n
    using that by (simp add: DatasetId_init_def)
  have exact: "DatasetId_init U svc g (lit ''News'') v ls =
      Inl (AssertionError (lit ''name News has to be lower cased for consistency''))"
    if "ascii_exact U" "g \<noteq> []" "v \<noteq> []"
    using News_not_lower [OF that(1)] that(2,3)
    by (simp add: DatasetId_init_def) (simp add: lit_def)
  have ok: "DatasetId_init U svc g (lit ''news'') v ls =
      Inr \<lparr>group = g, name = lit ''news'', version = v, langs = ts\<rparr>"
    if "ascii_exact U" "g \<noteq> []" "v \<noteq> []" "set reserved_chars \<inter> set g = {}"
      "set reserved_chars \<inter> set v = {}" "normalize_langs svc ls = Inr ts"
  proof -
    have "check_names [g, v, lit ''news''] = None"
      unfolding check_names_None_iff using that clean by simp
    moreover have "lit ''news'' \<noteq> []"
      by (simp add: lit_def)
    ultimately show ?thesis
      using that news_lower [OF that(1)] by (simp add: DatasetId_init_def)
  qed
  show ?thesis
    using general [of n] general [OF News_not_lower] exact ok
    by blast
qed

theorem name_case_rule_witness:
  "\<not> py_islower latin1 (lit ''News'')
   \<and> DatasetId_init latin1 demo (lit ''g'') (lit ''News'') (lit ''1'')
         [Raw (lit ''en''), Raw (lit ''fr'')] =
       Inl (AssertionError (lit ''name News has to be lower cased for consistency''))
   \<and> DatasetId_init latin1 demo (lit ''g'') (lit ''news'') (lit ''1'')
         [Raw (lit ''en''), Raw (lit ''fr'')] =
       Inr \<lparr>group = lit ''g'', name = lit ''news'', version = lit ''1'',
            langs = [lit ''eng'', lit ''fra'']\<rparr>
   \<and> \<not> py_islower latin1 [110, 0xC9, 119, 115]
   \<and> (\<exists>msg. DatasetId_init latin1 demo (lit ''g'') [110, 0xC9, 119, 115] (lit ''1'')
               [Raw (lit ''en''), Raw (lit ''fr'')] = Inl (AssertionError msg))"
proof -
  have a: "\<not> py_islower latin1 (lit ''News'')"
    by (rule News_not_lower [OF ascii_exact_latin1])
  have b: "\<not> py_islower latin1 [110, 0xC9, 119, 115]"
    by (simp add: py_islower_def latin1_def)
  have c: "lit ''g'' \<noteq> [] \<and> lit ''1'' \<noteq> []
      \<and> set reserved_chars \<inter> set (lit ''g'') = {} \<and> set reserved_chars \<inter> set (lit ''1'') = {}
      \<and> normalize_langs demo [Raw (lit ''en''), Raw (lit ''fr'')] = Inr [lit ''eng'', lit ''fra'']"
    by (simp add: demo_simps)
  show ?thesis
    using a b c ascii_exact_latin1
      name_case_rule [of latin1 "lit ''News''" demo "lit ''g''" "lit ''1''"
        "[Raw (lit ''en''), Raw (lit ''fr'')]" "[lit ''eng'', lit ''fra'']"]
      name_case_rule [of latin1 "[110, 0xC9, 119, 115]" demo "lit ''g''" "lit ''1''"
        "[Raw (lit ''en''), Raw (lit ''fr'')]" "[lit ''eng'', lit ''fra'']"]
    by blast
qed

text \<open>
  A name with a lower-case character outside ASCII and no upper-case one, such as the
  single letter U+00F1, is lower-case, and the identifier is constructed.
\<close>

lemma non_ascii_lower_name_constructed:
  "DatasetId_init latin1 demo (lit ''g'') [0xF1] (lit ''1'') [Raw (lit ''en''), Raw (lit ''fr'')] =
     Inr \<lparr>group = lit ''g'', name = [0xF1], version = lit ''1'',
          langs = [lit ''eng'', lit ''fra'']\<rparr>"
  by (simp add: DatasetId_init_def demo_simps)

text \<open>
  C10. A name without cased characters (no upper-case, no title-case and no lower-case
  character, such as \<open>"2021"\<close>) is rejected: \<open>islower()\<close> is false for it, so the
  construction fails with an \<open>AssertionError\<close>, which is the one of the case assertion
  when the three fields are non-empty.
\<close>

theorem caseless_name_rejected:
  assumes "list_all (\<lambda>c. \<not> uc_isupper U c \<and> \<not> uc_istitle U c \<and> \<not> uc_islower U c) n"
  shows "(\<exists>msg. DatasetId_init U svc g n v ls = Inl (AssertionError msg))
         \<and> (g \<noteq> [] \<and> n \<noteq> [] \<and> v \<noteq> [] \<longrightarrow>
              DatasetId_init U svc g n v ls =
                Inl (AssertionError
                  (lit ''name '' @ n @ lit '' has to be lower cased for consistency'')))"
proof -
  from assms have "\<not> py_islower U n"
    by (auto simp: py_islower_iff list_all_iff)
  then show ?thesis
    by (simp add: DatasetId_init_def)
qed

theorem caseless_name_rejected_witness:
  "list_all (\<lambda>c. \<not> uc_isupper latin1 c \<and> \<not> uc_istitle latin1 c \<and> \<not> uc_islower latin1 c)
     (lit ''2021'')
   \<and> set reserved_chars \<inter> set (lit ''2021'') = {}
   \<and> DatasetId_init latin1 demo (lit ''g'') (lit ''2021'') (lit ''1'')
         [Raw (lit ''en''), Raw (lit ''fr'')] =
       Inl (AssertionError (lit ''name 2021 has to be lower cased for consistency''))"
  using caseless_name_rejected [of latin1 "lit ''2021''" demo "lit ''g''" "lit ''1''"
      "[Raw (lit ''en''), Raw (lit ''fr'')]"]
  by (simp add: demo_simps)

section \<open>The noise filter\<close>

text \<open>
  C9. \<open>is_noisy(seg1, seg2)\<close> is true exactly when a segment is \<open>None\<close> or is empty after
  stripping whitespace, which is when all its characters are whitespace;
  \<open>is_noisy(None, "hello")\<close> and \<open>is_noisy("  ", "hi")\<close> are true and
  \<open>is_noisy("hi", "there")\<close> is false.
\<close>

theorem is_noisy_iff:
  "(is_noisy U seg1 seg2 \<longleftrightarrow>
      seg1 = None \<or> seg2 = None
      \<or> (\<exists>s. seg1 = Some s \<and> py_strip U s = []) \<or> (\<exists>s. seg2 = Some s \<and> py_strip U s = []))
   \<and> (py_strip U t = [] \<longleftrightarrow> list_all (uc_isspace U) t)
   \<and> is_noisy U None (Some (lit ''hello''))
   \<and> (ascii_exact U \<longrightarrow>
        is_noisy U (Some (lit ''  '')) (Some (lit ''hi''))
        \<and> \<not> is_noisy U (Some (lit ''hi'')) (Some (lit ''there'')))"
proof -
  have "is_noisy U seg1 seg2 \<longleftrightarrow>
      seg1 = None \<or> seg2 = None
      \<or> (\<exists>s. seg1 = Some s \<and> py_strip U s = []) \<or> (\<exists>s. seg2 = Some s \<and> py_strip U s = [])"
    by (auto simp: is_noisy_def split: option.splits)
  moreover have "is_noisy U None (Some (lit ''hello''))"
    by (simp add: is_noisy_def)
  moreover have "is_noisy U (Some (lit ''  '')) (Some (lit ''hi''))" if "ascii_exact U"
    using that by (simp add: is_noisy_def strip_empty_iff lit_def ascii_class)
  moreover have "\<not> is_noisy U (Some (lit ''hi'')) (Some (lit ''there''))" if "ascii_exact U"
    using that by (simp add: is_noisy_def strip_empty_iff lit_def ascii_class)
  moreover note strip_empty_iff [of U t]
  ultimately show ?thesis
    by blast
qed

theorem is_noisy_iff_witness:
  "is_noisy latin1 None (Some (lit ''hello''))
   \<and> is_noisy latin1 (Some (lit ''  '')) (Some (lit ''hi''))
   \<and> \<not> is_noisy latin1 (Some (lit ''hi'')) (Some (lit ''there''))
   \<and> is_noisy latin1 (Some [0xA0]) (Some (lit ''hi''))
   \<and> is_noisy latin1 (Some (lit ''hi'')) (Some [0x3000, 0x85])"
proof -
  have "is_noisy latin1 (Some [0xA0]) (Some (lit ''hi''))"
    "is_noisy latin1 (Some (lit ''hi'')) (Some [0x3000, 0x85])"
    by (simp_all add: is_noisy_def strip_empty_iff latin1_def)
  then show ?thesis
    using ascii_exact_latin1 is_noisy_iff [of latin1 None None "[]"]
    by blast
qed

section \<open>Entry construction\<close>

lemma Entry_init_archive:
  assumes "resolve_ext svc u fname ex \<in> set archive_exts"
  shows "Entry_init svc d u fname ex ipaths iext ct cl =
     (if \<not> truthy ipaths
        then Inl (AssertionError (lit ''Archive entries must have in_paths''))
      else if \<not> truthy iext
        then Inl (Exception (lit ''in_ext is required for archive files''))
      else Inr \<lparr>did = d, url = u,
                 filename = py_or fname (name d @ lit ''.'' @ resolve_ext svc u fname ex),
                 ext = resolve_ext svc u fname ex, in_paths = ipaths, in_ext = iext,
                 cite = ct, cols = cl, is_archive = True\<rparr>)"
proof -
  from assms have "\<not> prefix (lit ''.'') (resolve_ext svc u fname ex)"
    by (auto simp: archive_exts_def lit_def)
  with assms show ?thesis
    by (simp add: Entry_init_def Let_def)
qed

lemma Entry_init_plain:
  assumes "resolve_ext svc u fname ex \<notin> set archive_exts"
    and "\<not> prefix (lit ''.'') (resolve_ext svc u fname ex)"
  shows "Entry_init svc d u fname ex ipaths iext ct cl =
     (if iext \<noteq> Some (lit ''opus_xces'') \<and> truthy ipaths
      then Inl (AssertionError (lit ''in_paths is not applicable for non archive format ''
                  @ resolve_ext svc u fname ex))
      else Inr \<lparr>did = d, url = u,
                 filename = py_or fname (name d @ lit ''.'' @ resolve_ext svc u fname ex),
                 ext = resolve_ext svc u fname ex, in_paths = ipaths, in_ext = iext,
                 cite = ct, cols = cl, is_archive = False\<rparr>)"
  using assms by (simp add: Entry_init_def Let_def)

lemma Entry_init_dot:
  assumes "prefix (lit ''.'') (resolve_ext svc u fname ex)"
  shows "Entry_init svc d u fname ex ipaths iext ct cl =
     Inl (AssertionError (lit ''ext '' @ resolve_ext svc u fname ex
            @ lit '' should not start with a dot (.)''))"
  using assms by (simp add: Entry_init_def Let_def)

text \<open>
  C7. An Entry that was constructed has the resolved extension as its \<open>ext\<close>, and its
  \<open>is_archive\<close> flag is true exactly when that extension is one of \<open>zip\<close>, \<open>tar\<close>,
  \<open>tar.gz\<close>, \<open>tgz\<close>, compared as strings.
\<close>

theorem is_archive_iff_archive_ext:
  assumes "Entry_init svc d u fname ex ipaths iext ct cl = Inr e"
  shows "ext e = resolve_ext svc u fname ex
         \<and> (is_archive e \<longleftrightarrow> ext e \<in> {lit ''zip'', lit ''tar'', lit ''tar.gz'', lit ''tgz''})"
  using assms
  by (auto simp: Entry_init_def Let_def archive_exts_def split: if_splits)

theorem is_archive_iff_archive_ext_witness:
  "Entry_init demo demo_did demo_url None (Some (lit ''zip'')) (Some [lit ''a.txt''])
       (Some (lit ''txt'')) None None =
     Inr \<lparr>did = demo_did, url = demo_url, filename = lit ''news.zip'', ext = lit ''zip'',
          in_paths = Some [lit ''a.txt''], in_ext = Some (lit ''txt''), cite = None,
          cols = None, is_archive = True\<rparr>
   \<and> Entry_init demo demo_did demo_url None (Some (lit ''ZIP'')) None None None None =
     Inr \<lparr>did = demo_did, url = demo_url, filename = lit ''news.ZIP'', ext = lit ''ZIP'',
          in_paths = None, in_ext = None, cite = None, cols = None, is_archive = False\<rparr>"
  using
    is_archive_iff_archive_ext [of demo demo_did demo_url None "Some (lit ''zip'')"
      "Some [lit ''a.txt'']" "Some (lit ''txt'')" None None]
    is_archive_iff_archive_ext [of demo demo_did demo_url None "Some (lit ''ZIP'')" None None
      None None]
  by (simp add: Entry_init_def Let_def resolve_ext_def demo_simps)

text \<open>
  C4, as amended. When the resolved extension is an archive extension, the construction
  fails with \<open>AssertionError('Archive entries must have in_paths')\<close> if \<open>in_paths\<close> is
  \<open>None\<close> or empty, and otherwise with \<open>Exception('in_ext is required for archive files')\<close>
  if \<open>in_ext\<close> is \<open>None\<close> or the empty string; with a non-empty \<open>in_paths\<close> and a
  non-empty \<open>in_ext\<close> it succeeds and \<open>is_archive\<close> is true.
\<close>

theorem archive_consistency:
  assumes "resolve_ext svc u fname ex \<in> set archive_exts"
  shows "(ipaths = None \<or> ipaths = Some [] \<longrightarrow>
            Entry_init svc d u fname ex ipaths iext ct cl =
              Inl (AssertionError (lit ''Archive entries must have in_paths'')))
         \<and> (ps \<noteq> [] \<and> (iext = None \<or> iext = Some []) \<longrightarrow>
            Entry_init svc d u fname ex (Some ps) iext ct cl =
              Inl (Exception (lit ''in_ext is required for archive files'')))
         \<and> (ps \<noteq> [] \<and> ix \<noteq> [] \<longrightarrow>
            Entry_init svc d u fname ex (Some ps) (Some ix) ct cl =
              Inr \<lparr>did = d, url = u,
                   filename = py_or fname (name d @ lit ''.'' @ resolve_ext svc u fname ex),
                   ext = resolve_ext svc u fname ex, in_paths = Some ps, in_ext = Some ix,
                   cite = ct, cols = cl, is_archive = True\<rparr>)"
  by (cases iext) (auto simp: Entry_init_archive [OF assms])

theorem archive_consistency_witness:
  "resolve_ext demo demo_url None (Some (lit ''zip'')) \<in> set archive_exts
   \<and> Entry_init demo demo_did demo_url None (Some (lit ''zip'')) (Some []) None None None =
       Inl (AssertionError (lit ''Archive entries must have in_paths''))
   \<and> Entry_init demo demo_did demo_url None (Some (lit ''zip'')) (Some [lit ''a.txt'']) None
         None None =
       Inl (Exception (lit ''in_ext is required for archive files''))
   \<and> Entry_init demo demo_did demo_url None (Some (lit ''zip'')) (Some [lit ''a.txt''])
         (Some (lit ''txt'')) None None =
       Inr \<lparr>did = demo_did, url = demo_url, filename = lit ''news.zip'', ext = lit ''zip'',
            in_paths = Some [lit ''a.txt''], in_ext = Some (lit ''txt''), cite = None,
            cols = None, is_archive = True\<rparr>"
proof -
  have a: "resolve_ext demo demo_url None (Some (lit ''zip'')) \<in> set archive_exts"
    by (simp add: resolve_ext_def archive_exts_def lit_def)
  show ?thesis
    using a
      archive_consistency [OF a, of "Some []" demo_did None None None "[lit ''a.txt'']"
        "lit ''txt''"]
      archive_consistency [OF a, of None demo_did None None None "[lit ''a.txt'']"
        "lit ''txt''"]
    by (simp add: resolve_ext_def demo_simps)
qed

text \<open>
  The claim C4 as it is written fails for an \<open>in_ext\<close> that is supplied as the empty
  string: \<open>in_paths\<close> is non-empty, \<open>in_ext\<close> is given, and the construction raises.
\<close>

theorem archive_empty_in_ext_counterexample:
  "resolve_ext demo demo_url None (Some (lit ''zip'')) \<in> set archive_exts
   \<and> Entry_init demo demo_did demo_url None (Some (lit ''zip'')) (Some [lit ''a.txt''])
         (Some []) None None =
       Inl (Exception (lit ''in_ext is required for archive files''))"
  by (simp add: Entry_init_def Let_def resolve_ext_def demo_simps)

text \<open>
  C5, as amended. When the resolved extension is not an archive extension and does not
  begin with a dot, the construction fails with the \<open>AssertionError\<close> of the \<open>in_paths\<close>
  check if \<open>in_paths\<close> is non-empty and \<open>in_ext\<close> is not \<open>opus_xces\<close>; it succeeds, as a
  plain file, if \<open>in_ext\<close> is \<open>opus_xces\<close> or if \<open>in_paths\<close> is \<open>None\<close> or empty.
\<close>

theorem non_archive_consistency:
  assumes "resolve_ext svc u fname ex \<notin> set archive_exts"
    and "\<not> prefix (lit ''.'') (resolve_ext svc u fname ex)"
  shows "(ps \<noteq> [] \<and> iext \<noteq> Some (lit ''opus_xces'') \<longrightarrow>
            Entry_init svc d u fname ex (Some ps) iext ct cl =
              Inl (AssertionError (lit ''in_paths is not applicable for non archive format ''
                     @ resolve_ext svc u fname ex)))
         \<and> (iext = Some (lit ''opus_xces'') \<or> ipaths = None \<or> ipaths = Some [] \<longrightarrow>
            Entry_init svc d u fname ex ipaths iext ct cl =
              Inr \<lparr>did = d, url = u,
                   filename = py_or fname (name d @ lit ''.'' @ resolve_ext svc u fname ex),
                   ext = resolve_ext svc u fname ex, in_paths = ipaths, in_ext = iext,
                   cite = ct, cols = cl, is_archive = False\<rparr>)"
  by (auto simp: Entry_init_plain [OF assms])

theorem non_archive_consistency_witness:
  "resolve_ext demo demo_url None (Some (lit ''tsv'')) \<notin> set archive_exts
   \<and> \<not> prefix (lit ''.'') (resolve_ext demo demo_url None (Some (lit ''tsv'')))
   \<and> Entry_init demo demo_did demo_url None (Some (lit ''tsv'')) (Some [lit ''x'']) None None
         None =
       Inl (AssertionError (lit ''in_paths is not applicable for non archive format tsv''))
   \<and> Entry_init demo demo_did demo_url None (Some (lit ''tsv'')) (Some [lit ''x''])
         (Some (lit ''opus_xces'')) None None =
       Inr \<lparr>did = demo_did, url = demo_url, filename = lit ''news.tsv'', ext = lit ''tsv'',
            in_paths = Some [lit ''x''], in_ext = Some (lit ''opus_xces''), cite = None,
            cols = None, is_archive = False\<rparr>
   \<and> Entry_init demo demo_did demo_url None (Some (lit ''tsv'')) (Some []) None None None =
       Inr \<lparr>did = demo_did, url = demo_url, filename = lit ''news.tsv'', ext = lit ''tsv'',
            in_paths = Some [], in_ext = None, cite = None, cols = None,
            is_archive = False\<rparr>"
proof -
  have a: "resolve_ext demo demo_url None (Some (lit ''tsv'')) \<notin> set archive_exts"
    by (simp add: resolve_ext_def archive_exts_def lit_def)
  have b: "\<not> prefix (lit ''.'') (resolve_ext demo demo_url None (Some (lit ''tsv'')))"
    by (simp add: resolve_ext_def lit_def)
  show ?thesis
    using a b
      non_archive_consistency [OF a b, of "[lit ''x'']" None demo_did None None "Some []"]
      non_archive_consistency [OF a b, of "[lit ''x'']" "Some (lit ''opus_xces'')" demo_did
        None None "Some [lit ''x'']"]
    by (simp add: resolve_ext_def demo_simps)
qed

text \<open>
  The claim C5 as it is written fails for an extension that begins with a dot: it is not
  an archive extension, \<open>in_paths\<close> is non-empty and \<open>in_ext\<close> is not the exempt format, but
  the construction stops at the earlier assertion on the extension, not at the
  \<open>in_paths\<close> check.
\<close>

theorem dot_ext_counterexample:
  "resolve_ext demo demo_url None (Some (lit ''.tsv'')) \<notin> set archive_exts
   \<and> Entry_init demo demo_did demo_url None (Some (lit ''.tsv'')) (Some [lit ''x'']) None None
         None =
       Inl (AssertionError (lit ''ext .tsv should not start with a dot (.)''))
   \<and> Entry_init demo demo_did demo_url None (Some (lit ''.tsv'')) (Some [lit ''x'']) None None
         None \<noteq>
       Inl (AssertionError (lit ''in_paths is not applicable for non archive format .tsv''))"
  by (simp add: Entry_init_def Let_def resolve_ext_def demo_simps)

section \<open>Parsing an identifier\<close>

lemma normalize_lang_error: "normalize_lang svc l = Inl e \<Longrightarrow> \<exists>r. e = InvalidTag r"
  by (cases l) (auto split: option.splits)

lemma normalize_langs_error: "normalize_langs svc ls = Inl e \<Longrightarrow> \<exists>r. e = InvalidTag r"
  by (induction ls arbitrary: e) (auto split: sum.splits dest: normalize_lang_error)

lemma DatasetId_init_error:
  "DatasetId_init U svc g n v ls = Inl e \<Longrightarrow>
     (\<exists>m. e = AssertionError m) \<or> (\<exists>r. e = InvalidTag r)"
  by (auto simp: DatasetId_init_def simp del: check_names.simps
      split: if_splits option.splits sum.splits
      dest: check_names_Some normalize_langs_error)

lemma length_five: "length xs = 5 \<longleftrightarrow> (\<exists>a b c d e. xs = [a, b, c, d, e])"
  by (auto simp: length_Suc_conv eval_nat_numeral)

lemma parse_five:
  "py_split (py_strip U s) delim = Inr [g, n, v, l1, l2] \<Longrightarrow>
   parse U svc s delim = DatasetId_init U svc g n v [Raw l1, Raw l2]"
  by (simp add: parse_def)

lemma parse_not_five:
  "py_split (py_strip U s) delim = Inr parts \<Longrightarrow> length parts \<noteq> 5 \<Longrightarrow>
   parse U svc s delim =
     Inl (Exception (lit ''Dataset ID expected in format: '' @ expected_format delim
            @ lit ''; but given '' @ s @ lit ''.'' @ list_hint))"
  by (auto simp: parse_def split: list.splits)

lemma expected_format_default:
  "expected_format DID_DELIM = lit ''<group>-<name>-<version>-<l1>-<l2>''"
  by (simp add: expected_format_def DID_DELIM_def lit_def)

text \<open>
  C3. With the default delimiter the split of the stripped input always yields a list of
  segments, and \<open>parse\<close> raises \<open>Exception\<close> (the code's MalformedIdentifierString)
  exactly when that list does not have 5 members. The message is then the fixed text
  around the input: it holds the template \<open><group>-<name>-<version>-<l1>-<l2>\<close> and the
  hint to run \<open>mtdata list\<close>.
\<close>

theorem parse_malformed_iff:
  "\<exists>parts. py_split (py_strip U s) DID_DELIM = Inr parts
     \<and> ((\<exists>msg. parse U svc s DID_DELIM = Inl (Exception msg)) \<longleftrightarrow> length parts \<noteq> 5)
     \<and> (length parts \<noteq> 5 \<longrightarrow>
          parse U svc s DID_DELIM =
            Inl (Exception
              (lit ''Dataset ID expected in format: <group>-<name>-<version>-<l1>-<l2>; but given ''
               @ s @ lit ''. If you are unsure, run '' @ lit [CHR 0x22]
               @ lit ''mtdata list | cut -f1 | grep -i <name>'' @ lit [CHR 0x22]
               @ lit '' and copy its id.'')))"
proof -
  define parts where "parts = split_from DID_DELIM [] (py_strip U s)"
  have split: "py_split (py_strip U s) DID_DELIM = Inr parts"
    by (simp add: py_split_def parts_def DID_DELIM_def lit_def)
  have bad: "parse U svc s DID_DELIM =
      Inl (Exception
        (lit ''Dataset ID expected in format: <group>-<name>-<version>-<l1>-<l2>; but given ''
         @ s @ lit ''. If you are unsure, run '' @ lit [CHR 0x22]
         @ lit ''mtdata list | cut -f1 | grep -i <name>'' @ lit [CHR 0x22]
         @ lit '' and copy its id.''))"
    if "length parts \<noteq> 5"
    unfolding parse_not_five [OF split that, of svc] expected_format_default list_hint_def
    by (simp add: lit_def)
  have good: "\<not> (\<exists>msg. parse U svc s DID_DELIM = Inl (Exception msg))"
    if "length parts = 5"
  proof -
    from that obtain g n v l1 l2 where "parts = [g, n, v, l1, l2]"
      by (auto simp: length_five)
    with split have "parse U svc s DID_DELIM = DatasetId_init U svc g n v [Raw l1, Raw l2]"
      by (simp add: parse_five)
    then show ?thesis
      using DatasetId_init_error [of U svc g n v "[Raw l1, Raw l2]"] by auto
  qed
  from split bad good show ?thesis
    by blast
qed

theorem parse_malformed_iff_witness:
  "py_split (py_strip latin1 (lit ''g-n-v-en'')) DID_DELIM =
       Inr [lit ''g'', lit ''n'', lit ''v'', lit ''en'']
   \<and> parse latin1 demo (lit ''g-n-v-en'') DID_DELIM =
       Inl (Exception
         (lit ''Dataset ID expected in format: <group>-<name>-<version>-<l1>-<l2>; but given ''
          @ lit ''g-n-v-en'' @ lit ''. If you are unsure, run '' @ lit [CHR 0x22]
          @ lit ''mtdata list | cut -f1 | grep -i <name>'' @ lit [CHR 0x22]
          @ lit '' and copy its id.''))
   \<and> py_split (py_strip latin1 (lit ''g-n-v-en-fr-extra'')) DID_DELIM =
       Inr [lit ''g'', lit ''n'', lit ''v'', lit ''en'', lit ''fr'', lit ''extra'']
   \<and> (\<exists>msg. parse latin1 demo (lit ''g-n-v-en-fr-extra'') DID_DELIM = Inl (Exception msg))
   \<and> py_split (py_strip latin1 (lit '' g-n-v-en-fr '')) DID_DELIM =
       Inr [lit ''g'', lit ''n'', lit ''v'', lit ''en'', lit ''fr'']
   \<and> parse latin1 demo (lit '' g-n-v-en-fr '') DID_DELIM =
       Inr \<lparr>group = lit ''g'', name = lit ''n'', version = lit ''v'',
            langs = [lit ''eng'', lit ''fra'']\<rparr>"
proof -
  have a: "py_split (py_strip latin1 (lit ''g-n-v-en'')) DID_DELIM =
      Inr [lit ''g'', lit ''n'', lit ''v'', lit ''en'']"
    by (simp add: py_split_def demo_simps)
  have b: "py_split (py_strip latin1 (lit ''g-n-v-en-fr-extra'')) DID_DELIM =
      Inr [lit ''g'', lit ''n'', lit ''v'', lit ''en'', lit ''fr'', lit ''extra'']"
    by (simp add: py_split_def demo_simps)
  have c: "py_split (py_strip latin1 (lit '' g-n-v-en-fr '')) DID_DELIM =
      Inr [lit ''g'', lit ''n'', lit ''v'', lit ''en'', lit ''fr'']"
    by (simp add: py_split_def demo_simps)
  have d: "parse latin1 demo (lit '' g-n-v-en-fr '') DID_DELIM =
      Inr \<lparr>group = lit ''g'', name = lit ''n'', version = lit ''v'',
           langs = [lit ''eng'', lit ''fra'']\<rparr>"
    unfolding parse_five [OF c] by (simp add: DatasetId_init_def demo_simps)
  show ?thesis
    using a b c d
      parse_malformed_iff [of latin1 "lit ''g-n-v-en''" demo]
      parse_malformed_iff [of latin1 "lit ''g-n-v-en-fr-extra''" demo]
      parse_malformed_iff [of latin1 "lit '' g-n-v-en-fr ''" demo]
    by auto
qed

section \<open>The round trip of format and parse\<close>

lemma split_from_no_delim: "c \<notin> set a \<Longrightarrow> split_from [c] cur a = [cur @ a]"
  by (induction a arbitrary: cur) auto

lemma split_from_at_delim:
  "c \<notin> set a \<Longrightarrow> split_from [c] cur (a @ c # rest) = (cur @ a) # split_from [c] [] rest"
  by (induction a arbitrary: cur) auto

lemma split_five:
  assumes "c \<notin> set a1" "c \<notin> set a2" "c \<notin> set a3" "c \<notin> set a4" "c \<notin> set a5"
  shows "split_from [c] [] (a1 @ c # a2 @ c # a3 @ c # a4 @ c # a5) = [a1, a2, a3, a4, a5]"
  using assms by (simp add: split_from_at_delim split_from_no_delim)

lemma format_pair:
  "langs d = [t1, t2] \<Longrightarrow>
   format svc d DID_DELIM =
     group d @ of_char CHR ''-'' # name d @ of_char CHR ''-'' # version d @ of_char CHR ''-''
       # tag_str svc t1 @ of_char CHR ''-'' # tag_str svc t2"
  by (simp add: format_def lang_str_def DID_DELIM_def lit_def)

lemma DatasetId_init_Inr:
  "DatasetId_init U svc g n v ls = Inr d \<longleftrightarrow>
     g \<noteq> [] \<and> n \<noteq> [] \<and> v \<noteq> [] \<and> py_islower U n \<and> check_names [g, v, n] = None
     \<and> (\<exists>ts. normalize_langs svc ls = Inr ts
            \<and> d = \<lparr>group = g, name = n, version = v, langs = ts\<rparr>)"
  by (auto simp: DatasetId_init_def simp del: check_names.simps
      split: option.splits sum.splits)

lemma reserved_dash: "of_char CHR ''-'' \<in> set reserved_chars"
  by (simp add: reserved_chars_def lit_def)

lemma strip_id:
  assumes "s \<noteq> []" "\<not> uc_isspace U (hd s)" "\<not> uc_isspace U (last s)"
  shows "py_strip U s = s"
proof -
  from assms have front: "dropWhile (uc_isspace U) s = s"
    by (cases s) auto
  from assms have "\<not> uc_isspace U (hd (rev s))" "rev s \<noteq> []"
    by (simp_all add: hd_rev)
  then have "dropWhile (uc_isspace U) (rev s) = rev s"
    by (cases "rev s") auto
  with front show ?thesis
    by (simp add: py_strip_def)
qed

text \<open>
  The canonical string of an identifier over two languages has no leading or trailing
  whitespace when the group does not begin with a whitespace character and the string of
  the last tag does not end with one (the delimiter is not whitespace).
\<close>

lemma canonical_string_trimmed:
  assumes "langs d = [t1, t2]" and "group d \<noteq> []" and "\<not> uc_isspace U (hd (group d))"
    and "tag_str svc t2 = [] \<or> \<not> uc_isspace U (last (tag_str svc t2))"
    and dash: "\<not> uc_isspace U (of_char CHR ''-'')"
  shows "py_strip U (format svc d DID_DELIM) = format svc d DID_DELIM"
  unfolding format_pair [OF assms(1)]
  using assms(2-4) dash by (intro strip_id) auto

text \<open>
  C1, as amended. Let \<open>d\<close> be the identifier constructed from a group, a name, a version
  and two languages. If the tag service renders each of its two tags as a string that has
  no \<open>-\<close> and that the service normalises back to the same tag, and the canonical string of
  \<open>d\<close> has no leading or trailing whitespace, then parsing the canonical string gives \<open>d\<close>.
  The raw languages given at construction may differ from the strings of the tags.
\<close>

theorem parse_format_round_trip:
  assumes built: "DatasetId_init U svc g n v [a1, a2] = Inr d"
    and tags: "\<forall>t \<in> set (langs d).
                 of_char CHR ''-'' \<notin> set (tag_str svc t) \<and> bcp47 svc (tag_str svc t) = Some t"
    and trim: "py_strip U (format svc d DID_DELIM) = format svc d DID_DELIM"
  shows "parse U svc (format svc d DID_DELIM) DID_DELIM = Inr d"
proof -
  from built obtain ts where
    ok: "g \<noteq> []" "n \<noteq> []" "v \<noteq> []" "py_islower U n" "check_names [g, v, n] = None"
    and ts: "normalize_langs svc [a1, a2] = Inr ts"
    and d: "d = \<lparr>group = g, name = n, version = v, langs = ts\<rparr>"
    unfolding DatasetId_init_Inr by blast
  from ts obtain t1 t2 where ts2: "ts = [t1, t2]"
    by (auto split: sum.splits)
  have clean: "of_char CHR ''-'' \<notin> set g" "of_char CHR ''-'' \<notin> set n"
    "of_char CHR ''-'' \<notin> set v"
    using ok(5) reserved_dash unfolding check_names_None_iff by auto
  from tags d ts2 have t:
    "of_char CHR ''-'' \<notin> set (tag_str svc t1)" "of_char CHR ''-'' \<notin> set (tag_str svc t2)"
    "bcp47 svc (tag_str svc t1) = Some t1" "bcp47 svc (tag_str svc t2) = Some t2"
    by auto
  have fmt: "format svc d DID_DELIM =
      g @ of_char CHR ''-'' # n @ of_char CHR ''-'' # v @ of_char CHR ''-''
        # tag_str svc t1 @ of_char CHR ''-'' # tag_str svc t2"
    using format_pair [of d t1 t2 svc] d ts2 by simp
  have "py_split (py_strip U (format svc d DID_DELIM)) DID_DELIM =
      Inr [g, n, v, tag_str svc t1, tag_str svc t2]"
    unfolding trim unfolding fmt
    using split_five [OF clean t(1,2)] by (simp add: py_split_def DID_DELIM_def lit_def)
  then have "parse U svc (format svc d DID_DELIM) DID_DELIM =
      DatasetId_init U svc g n v [Raw (tag_str svc t1), Raw (tag_str svc t2)]"
    by (rule parse_five)
  also have "\<dots> = Inr d"
    unfolding DatasetId_init_Inr using ok t(3,4) d ts2 by simp
  finally show ?thesis .
qed

theorem parse_format_round_trip_witness:
  "DatasetId_init latin1 demo (lit ''g'') (lit ''news'') (lit ''1'')
       [Raw (lit ''en''), Raw (lit ''fr'')] =
     Inr \<lparr>group = lit ''g'', name = lit ''news'', version = lit ''1'',
          langs = [lit ''eng'', lit ''fra'']\<rparr>
   \<and> format demo \<lparr>group = lit ''g'', name = lit ''news'', version = lit ''1'',
                    langs = [lit ''eng'', lit ''fra'']\<rparr> DID_DELIM = lit ''g-news-1-eng-fra''
   \<and> parse latin1 demo (lit ''g-news-1-eng-fra'') DID_DELIM =
     Inr \<lparr>group = lit ''g'', name = lit ''news'', version = lit ''1'',
          langs = [lit ''eng'', lit ''fra'']\<rparr>"
proof -
  let ?d = "\<lparr>group = lit ''g'', name = lit ''news'', version = lit ''1'',
             langs = [lit ''eng'', lit ''fra'']\<rparr>"
  have a: "DatasetId_init latin1 demo (lit ''g'') (lit ''news'') (lit ''1'')
      [Raw (lit ''en''), Raw (lit ''fr'')] = Inr ?d"
    by (simp add: DatasetId_init_def demo_simps)
  have b: "\<forall>t \<in> set (langs ?d).
      of_char CHR ''-'' \<notin> set (tag_str demo t) \<and> bcp47 demo (tag_str demo t) = Some t"
    by (simp add: demo_simps)
  have f: "format demo ?d DID_DELIM = lit ''g-news-1-eng-fra''"
    by (simp add: format_def lang_str_def demo_simps)
  have c: "py_strip latin1 (format demo ?d DID_DELIM) = format demo ?d DID_DELIM"
    unfolding f by (simp add: demo_simps)
  show ?thesis
    using a f parse_format_round_trip [OF a b c] by simp
qed

text \<open>
  The claim C1 as it is written fails for a group that begins with a TAB: the TAB is not
  a reserved character, so the identifier is constructed, but \<open>parse\<close> strips it from the
  canonical string and returns an identifier with another group.
\<close>

theorem round_trip_tab_counterexample:
  "set reserved_chars \<inter> set [9, of_char CHR ''g''] = {}
   \<and> DatasetId_init latin1 demo [9, of_char CHR ''g''] (lit ''news'') (lit ''1'')
         [Raw (lit ''en''), Raw (lit ''fr'')] =
       Inr \<lparr>group = [9, of_char CHR ''g''], name = lit ''news'', version = lit ''1'',
            langs = [lit ''eng'', lit ''fra'']\<rparr>
   \<and> parse latin1 demo
        (format demo \<lparr>group = [9, of_char CHR ''g''], name = lit ''news'', version = lit ''1'',
                       langs = [lit ''eng'', lit ''fra'']\<rparr> DID_DELIM) DID_DELIM =
       Inr \<lparr>group = lit ''g'', name = lit ''news'', version = lit ''1'',
            langs = [lit ''eng'', lit ''fra'']\<rparr>
   \<and> parse latin1 demo
        (format demo \<lparr>group = [9, of_char CHR ''g''], name = lit ''news'', version = lit ''1'',
                       langs = [lit ''eng'', lit ''fra'']\<rparr> DID_DELIM) DID_DELIM \<noteq>
       Inr \<lparr>group = [9, of_char CHR ''g''], name = lit ''news'', version = lit ''1'',
            langs = [lit ''eng'', lit ''fra'']\<rparr>"
  by (simp add: parse_def py_split_def format_def lang_str_def DatasetId_init_def demo_simps)

text \<open>
  The same happens for a group that begins with a no-break space (U+00A0), which
  \<open>strip()\<close> removes as well: the hypothesis on the canonical string excludes it.
\<close>

lemma round_trip_nbsp:
  "DatasetId_init latin1 demo [0xA0, of_char CHR ''g''] (lit ''news'') (lit ''1'')
       [Raw (lit ''en''), Raw (lit ''fr'')] =
     Inr \<lparr>group = [0xA0, of_char CHR ''g''], name = lit ''news'', version = lit ''1'',
          langs = [lit ''eng'', lit ''fra'']\<rparr>
   \<and> py_strip latin1
        (format demo \<lparr>group = [0xA0, of_char CHR ''g''], name = lit ''news'',
                       version = lit ''1'', langs = [lit ''eng'', lit ''fra'']\<rparr> DID_DELIM) \<noteq>
      format demo \<lparr>group = [0xA0, of_char CHR ''g''], name = lit ''news'',
                     version = lit ''1'', langs = [lit ''eng'', lit ''fra'']\<rparr> DID_DELIM
   \<and> parse latin1 demo
        (format demo \<lparr>group = [0xA0, of_char CHR ''g''], name = lit ''news'',
                       version = lit ''1'', langs = [lit ''eng'', lit ''fra'']\<rparr> DID_DELIM)
        DID_DELIM =
       Inr \<lparr>group = lit ''g'', name = lit ''news'', version = lit ''1'',
            langs = [lit ''eng'', lit ''fra'']\<rparr>"
  by (simp add: parse_def py_split_def format_def lang_str_def DatasetId_init_def demo_simps)

section \<open>Swap detection\<close>

lemma lang_str_pair_length:
  "langs d = [t1, t2] \<Longrightarrow>
   length (lang_str svc d) = length (tag_str svc t1) + 1 + length (tag_str svc t2)"
  by (simp add: lang_str_def DID_DELIM_def lit_def)

lemma is_swap_length:
  "is_swap svc e ls \<Longrightarrow> length ls = length (Entry_lang_str svc e)"
  by (auto simp: is_swap_def dest: list_all2_lengthD split: if_splits)

text \<open>
  Whatever the tag service is: for an Entry over two languages, \<open>is_swap\<close> of a pair is
  false unless the strings of the two tags have one character between them, because the
  pair is compared with the characters of \<open>lang_str\<close>.
\<close>

lemma is_swap_pair_false:
  assumes "langs (did e) = [t1, t2]"
    and "length (tag_str svc t1) + length (tag_str svc t2) \<noteq> 1"
  shows "\<not> is_swap svc e [x, y]"
  using assms is_swap_length [of svc e "[x, y]"] lang_str_pair_length [of "did e" t1 t2 svc]
  by (auto simp: Entry_lang_str_def)

lemma is_swap_tmx: "in_ext e = Some (lit ''tmx'') \<Longrightarrow> \<not> is_swap svc e ls"
  by (simp add: is_swap_def)

text \<open>
  C2. The Entry constructed over the identifier with language order (French, English) has
  \<open>lang_str\<close> \<open>fra-eng\<close>; \<open>is_swap\<close> of the reversed pair (English, French) is false for it,
  given as tags or as strings, where the claim has true.
\<close>

theorem is_swap_reversed_pair_false:
  "Entry_init demo demo_did demo_url None (Some (lit ''tsv'')) None None None None =
     Inr demo_entry
   \<and> langs (did demo_entry) = [lit ''fra'', lit ''eng'']
   \<and> Entry_lang_str demo demo_entry = lit ''fra-eng''
   \<and> is_swap demo demo_entry [Tag (lit ''eng''), Tag (lit ''fra'')] = False
   \<and> is_swap demo demo_entry [Raw (lit ''eng''), Raw (lit ''fra'')] = False"
  by (simp add: Entry_init_def Let_def resolve_ext_def is_swap_def Entry_lang_str_def
      lang_str_def demo_simps)

section \<open>Papers register with their experiments\<close>

lemma add_paper_dom:
  "set rs \<subseteq> dom es \<Longrightarrow> \<exists>es'. add_paper p rs es = Some es'"
proof (induction rs arbitrary: es)
  case Nil
  then show ?case by simp
next
  case (Cons a rs)
  then obtain y where y: "es a = Some y"
    by auto
  have "set rs \<subseteq> dom (es(a \<mapsto> y\<lparr>papers := insert p (papers y)\<rparr>))"
    using Cons.prems by auto
  from Cons.IH [OF this] show ?case
    unfolding add_paper.simps y option.case .
qed

lemma add_paper_lookup:
  "add_paper p rs es = Some es' \<Longrightarrow>
   es' r = (if r \<in> set rs
            then map_option (\<lambda>x. x\<lparr>papers := insert p (papers x)\<rparr>) (es r)
            else es r)"
proof (induction rs arbitrary: es)
  case Nil
  then show ?case by simp
next
  case (Cons a rs)
  then show ?case
    by (auto split: option.splits if_splits simp: insert_absorb)
qed

lemma collect_langs_dom:
  "set rs \<subseteq> dom es \<Longrightarrow> \<exists>l. collect_langs es rs = Some l"
  by (induction rs) (auto split: option.splits)

lemma Paper_init_Some:
  assumes "set rs \<subseteq> dom (exps h)"
  shows "\<exists>h'. Paper_init h nm ti u c rs lg = Some (next_ref h, h')"
proof -
  from collect_langs_dom [OF assms] obtain l where "collect_langs (exps h) rs = Some l" ..
  moreover from add_paper_dom [OF assms] obtain es
    where "add_paper (next_ref h) rs (exps h) = Some es" ..
  ultimately show ?thesis
    by (auto simp: Paper_init_def Let_def split: option.splits)
qed

lemma Paper_init_exps:
  assumes "Paper_init h nm ti u c rs lg = Some (p, h')"
  shows "p = next_ref h \<and> next_ref h' = Suc p \<and>
     exps h' r = (if r \<in> set rs
            then map_option (\<lambda>x. x\<lparr>papers := insert p (papers x)\<rparr>) (exps h r)
            else exps h r)"
  using assms
  by (auto simp: Paper_init_def Let_def add_paper_lookup split: option.splits if_splits)

lemma Paper_init_paps:
  assumes "Paper_init h nm ti u c rs lg = Some (p, h')"
  shows "\<exists>l. paps h' = (paps h)(p \<mapsto> \<lparr>paper_name = nm, title = ti, paper_url = u,
                                     paper_cite = c, experiments = rs, paper_langs = l\<rparr>)"
  using assms
  by (auto simp: Paper_init_def Let_def split: option.splits if_splits)

lemma Paper_init_dom:
  assumes "Paper_init h nm ti u c rs lg = Some (p, h')"
  shows "dom (exps h') = dom (exps h)"
proof -
  have "exps h' r = None \<longleftrightarrow> exps h r = None" for r
    using Paper_init_exps [OF assms, of r] by (auto split: if_splits)
  then show ?thesis
    by (auto simp: dom_def)
qed

text \<open>
  C6. Constructing a Paper over allocated Experiments succeeds, and afterwards the Paper
  (its reference) is in the \<open>papers\<close> set of every Experiment of its list, which is
  otherwise unchanged. Constructing a second Paper gives another reference, and an
  Experiment in both lists then has both references added to its \<open>papers\<close>: exactly the
  two, each once, when it had none before. The two Papers are distinct members whatever
  their field values are.
\<close>

theorem paper_registration:
  assumes "set rs \<subseteq> dom (exps h)" and "set rs' \<subseteq> dom (exps h)"
  shows "\<exists>h1 h2.
      Paper_init h nm ti u c rs lg = Some (next_ref h, h1)
    \<and> Paper_init h1 nm' ti' u' c' rs' lg' = Some (Suc (next_ref h), h2)
    \<and> (\<forall>r \<in> set rs. \<exists>x. exps h r = Some x
          \<and> exps h1 r = Some (x\<lparr>papers := insert (next_ref h) (papers x)\<rparr>))
    \<and> (\<forall>r \<in> set rs \<inter> set rs'. \<exists>x x2. exps h r = Some x \<and> exps h2 r = Some x2
          \<and> papers x2 = papers x \<union> {next_ref h, Suc (next_ref h)}
          \<and> (papers x = {} \<longrightarrow> card (papers x2) = 2))
    \<and> (\<exists>l. paps h2 (next_ref h) =
          Some \<lparr>paper_name = nm, title = ti, paper_url = u, paper_cite = c,
                experiments = rs, paper_langs = l\<rparr>)
    \<and> (\<exists>l. paps h2 (Suc (next_ref h)) =
          Some \<lparr>paper_name = nm', title = ti', paper_url = u', paper_cite = c',
                experiments = rs', paper_langs = l\<rparr>)"
proof -
  from Paper_init_Some [OF assms(1)] obtain h1
    where h1: "Paper_init h nm ti u c rs lg = Some (next_ref h, h1)" ..
  note e1 = Paper_init_exps [OF h1]
  have "set rs' \<subseteq> dom (exps h1)"
    using assms(2) Paper_init_dom [OF h1] by simp
  from Paper_init_Some [OF this] obtain h2
    where "Paper_init h1 nm' ti' u' c' rs' lg' = Some (next_ref h1, h2)" ..
  with e1 have h2: "Paper_init h1 nm' ti' u' c' rs' lg' = Some (Suc (next_ref h), h2)"
    by simp
  note e2 = Paper_init_exps [OF h2]
  have first: "\<exists>x. exps h r = Some x
      \<and> exps h1 r = Some (x\<lparr>papers := insert (next_ref h) (papers x)\<rparr>)"
    if "r \<in> set rs" for r
  proof -
    from that assms(1) obtain x where "exps h r = Some x" by auto
    with e1 [of r] that show ?thesis by simp
  qed
  have both: "\<exists>x x2. exps h r = Some x \<and> exps h2 r = Some x2
      \<and> papers x2 = papers x \<union> {next_ref h, Suc (next_ref h)}
      \<and> (papers x = {} \<longrightarrow> card (papers x2) = 2)"
    if "r \<in> set rs \<inter> set rs'" for r
  proof -
    from that assms(1) obtain x where x: "exps h r = Some x" by auto
    with e1 [of r] e2 [of r] that
    have "exps h2 r =
        Some (x\<lparr>papers := insert (Suc (next_ref h)) (insert (next_ref h) (papers x))\<rparr>)"
      by simp
    with x show ?thesis by auto
  qed
  from Paper_init_paps [OF h1] Paper_init_paps [OF h2]
  have objs:
    "\<exists>l. paps h2 (next_ref h) =
          Some \<lparr>paper_name = nm, title = ti, paper_url = u, paper_cite = c,
                experiments = rs, paper_langs = l\<rparr>"
    "\<exists>l. paps h2 (Suc (next_ref h)) =
          Some \<lparr>paper_name = nm', title = ti', paper_url = u', paper_cite = c',
                experiments = rs', paper_langs = l\<rparr>"
    by auto
  from h1 h2 first both objs show ?thesis
    by blast
qed

theorem paper_registration_witness:
  "\<exists>h1 h2.
      Paper_init demo_store (lit ''a-etal-2020'') (lit ''t'') (lit ''u'') (lit ''c'') [0] None =
        Some (1, h1)
    \<and> Paper_init h1 (lit ''a-etal-2020'') (lit ''t'') (lit ''u'') (lit ''c'') [0] None =
        Some (2, h2)
    \<and> map_option papers (exps h1 0) = Some {1}
    \<and> map_option papers (exps h2 0) = Some {1, 2}
    \<and> paps h2 1 = paps h2 2 \<and> paps h2 1 \<noteq> None"
  using paper_registration [of "[0]" demo_store "[0]" "lit ''a-etal-2020''" "lit ''t''"
      "lit ''u''" "lit ''c''" None "lit ''a-etal-2020''" "lit ''t''" "lit ''u''" "lit ''c''" None]
  by (auto simp: demo_store_def Paper_init_def Let_def numeral_2_eq_2)

end
